theory Spec2Isabelle
  imports Complex_Main "HOL-Library.AList"
begin

section \<open>SmartStudy Abroad: the name normalizer, the program store, the route handlers
  and the form and chat components\<close>

text \<open>
  The development follows the repository file by file. The Python of
  \<^verbatim>\<open>backend/mongodb_handler.py\<close> is the listing in \<^verbatim>\<open>PROJECT_DOCUMENTATION.md\<close>;
  the TypeScript is \<^verbatim>\<open>src/app/api/*/route.ts\<close> and \<^verbatim>\<open>src/components/*.tsx\<close>.
  Strings are ASCII texts (\<^typ>\<open>string\<close>): a byte above 127 is neither a letter nor white
  space here, so \<^verbatim>\<open>lower\<close> and \<^verbatim>\<open>strip\<close> leave it alone.
\<close>

subsection \<open>Python strings: \<^verbatim>\<open>str.lower\<close> and \<^verbatim>\<open>str.strip\<close>\<close>

definition lower_char :: "char \<Rightarrow> char" where
  "lower_char c =
     (let n = (of_char c :: nat) in if 65 \<le> n \<and> n \<le> 90 then char_of (n + 32) else c)"

definition lower :: "string \<Rightarrow> string" where
  "lower s = map lower_char s"

text \<open>The ASCII characters for which \<^verbatim>\<open>str.isspace\<close> holds: 9 to 13, 28 to 31 and 32.\<close>

definition is_space :: "char \<Rightarrow> bool" where
  "is_space c = (let n = (of_char c :: nat) in (9 \<le> n \<and> n \<le> 13) \<or> (28 \<le> n \<and> n \<le> 32))"

definition strip :: "string \<Rightarrow> string" where
  "strip s = rev (dropWhile is_space (rev (dropWhile is_space s)))"

subsection \<open>Python dictionaries and exceptions\<close>

datatype py_error = KeyError | AttributeError | DuplicateKeyError | WriteError

text \<open>\<^verbatim>\<open>k in d\<close> and \<^verbatim>\<open>d[k]\<close>; the second raises on a missing key.\<close>

definition dict_contains :: "('k \<times> 'v) list \<Rightarrow> 'k \<Rightarrow> bool" where
  "dict_contains d k = (map_of d k \<noteq> None)"

definition dict_index :: "('k \<times> 'v) list \<Rightarrow> 'k \<Rightarrow> py_error + 'v" where
  "dict_index d k = (case map_of d k of None \<Rightarrow> Inl KeyError | Some v \<Rightarrow> Inr v)"

subsection \<open>\<^verbatim>\<open>normalize_name\<close>\<close>

text \<open>The table as the listing gives it (three entries).\<close>

definition abbreviations :: "(string \<times> string) list" where
  "abbreviations =
     [(''mit'', ''massachusetts institute of technology''),
      (''ucla'', ''university of california los angeles''),
      (''usc'', ''university of southern california'')]"

definition normalize_name :: "string \<Rightarrow> py_error + string" where
  "normalize_name name =
     (let normalized = strip (lower name)
      in if dict_contains abbreviations normalized
         then dict_index abbreviations normalized
         else Inr normalized)"

subsection \<open>The program collection of \<^verbatim>\<open>mongodb_handler.py\<close>\<close>

text \<open>
  A document is a Python dictionary, kept as an association list in insertion order; the
  collection keeps its documents in insertion order, the order in which \<^verbatim>\<open>find_one\<close>
  and \<^verbatim>\<open>update_one\<close> meet them. Field names are top-level names.
\<close>

datatype bson = BStr string | BInt int | BBool bool | BDate nat | BObjectId nat | BNull

type_synonym document = "(string \<times> bson) list"

record collection =
  docs :: "document list"
  next_oid :: nat

definition empty_collection :: collection where
  "empty_collection = \<lparr>docs = [], next_oid = 0\<rparr>"

text \<open>\<^verbatim>\<open>d[k] = v\<close> is \<^const>\<open>AList.update\<close>: in place when the key is there, appended otherwise.\<close>

definition dict_get :: "('k \<times> 'v) list \<Rightarrow> 'k \<Rightarrow> 'v \<Rightarrow> 'v" where
  "dict_get d k dflt = (case map_of d k of None \<Rightarrow> dflt | Some v \<Rightarrow> v)"


text \<open>
  A query filter gives each named field either a value to equal or a pattern for
  \<^verbatim>\<open>{'$regex': p, '$options': 'i'}\<close>. The regular-expression engine is MongoDB's, not
  the repository's: it is the parameter \<open>rx\<close> (pattern, then subject), and a pattern
  applies to string fields only.
\<close>

datatype cond = Equals bson | Regex string

type_synonym query = "(string \<times> cond) list"

fun holds :: "(string \<Rightarrow> string \<Rightarrow> bool) \<Rightarrow> document \<Rightarrow> string \<times> cond \<Rightarrow> bool" where
  "holds rx d (k, Equals v) = (map_of d k = Some v)"
| "holds rx d (k, Regex p) = (case map_of d k of Some (BStr s) \<Rightarrow> rx p s | _ \<Rightarrow> False)"

definition matches :: "(string \<Rightarrow> string \<Rightarrow> bool) \<Rightarrow> query \<Rightarrow> document \<Rightarrow> bool" where
  "matches rx q d = list_all (holds rx d) q"


text \<open>
  \<^verbatim>\<open>insert_one\<close> gives the document an \<^verbatim>\<open>_id\<close> when it has none and refuses an
  \<^verbatim>\<open>_id\<close> that is already stored. It returns the inserted id.
\<close>

definition insert_one :: "document \<Rightarrow> collection \<Rightarrow> py_error + (bson \<times> collection)" where
  "insert_one d c =
     (let d' = (if dict_contains d ''_id'' then d else d @ [(''_id'', BObjectId (next_oid c))]);
          oid = dict_get d' ''_id'' BNull
      in if list_ex (\<lambda>e. map_of e ''_id'' = Some oid) (docs c)
         then Inl DuplicateKeyError
         else Inr (oid, \<lparr>docs = docs c @ [d'], next_oid = Suc (next_oid c)\<rparr>))"

text \<open>
  \<^verbatim>\<open>update_one(filter, {'$set': new_data})\<close>: the first matching document gets every field
  of \<open>new_data\<close>; a different \<^verbatim>\<open>_id\<close> is refused. The count returned is
  \<^verbatim>\<open>modified_count\<close>: 1 when a document matched and changed, otherwise 0.
\<close>

definition set_fields :: "document \<Rightarrow> document \<Rightarrow> document" where
  "set_fields new_data d = foldl (\<lambda>acc kv. AList.update (fst kv) (snd kv) acc) d new_data"

fun update_first ::
  "(document \<Rightarrow> bool) \<Rightarrow> document \<Rightarrow> document list \<Rightarrow> py_error + (nat \<times> document list)" where
  "update_first P new_data [] = Inr (0, [])"
| "update_first P new_data (d # ds) =
     (if P d
      then (if dict_contains new_data ''_id'' \<and> map_of new_data ''_id'' \<noteq> map_of d ''_id''
            then Inl WriteError
            else Inr (if set_fields new_data d = d then 0 else 1, set_fields new_data d # ds))
      else (case update_first P new_data ds of
              Inl e \<Rightarrow> Inl e
            | Inr (n, ds') \<Rightarrow> Inr (n, d # ds')))"

definition update_one ::
  "(string \<Rightarrow> string \<Rightarrow> bool) \<Rightarrow> query \<Rightarrow> document \<Rightarrow> collection \<Rightarrow> py_error + (nat \<times> collection)" where
  "update_one rx q new_data c =
     (case update_first (matches rx q) new_data (docs c) of
        Inl e \<Rightarrow> Inl e
      | Inr (n, ds') \<Rightarrow> Inr (n, c\<lparr>docs := ds'\<rparr>))"

text \<open>\<^verbatim>\<open>normalize_name\<close> applied to a stored value: only a string has \<^verbatim>\<open>lower\<close>.\<close>

definition normalize_value :: "bson \<Rightarrow> py_error + string" where
  "normalize_value v = (case v of BStr s \<Rightarrow> normalize_name s | _ \<Rightarrow> Inl AttributeError)"

text \<open>
  \<^verbatim>\<open>save_program(data)\<close>. The two calls of \<^verbatim>\<open>datetime.now()\<close> are the arguments
  \<open>now1\<close> and \<open>now2\<close>. The result is the inserted id, of which the source returns
  \<^verbatim>\<open>str\<close>, and the collection after the insert.
\<close>

definition save_program ::
  "nat \<Rightarrow> nat \<Rightarrow> document \<Rightarrow> collection \<Rightarrow> py_error + (bson \<times> collection)" where
  "save_program now1 now2 data c =
     (let data1 = AList.update ''created_at'' (BDate now1) data;
          data2 = AList.update ''updated_at'' (BDate now2) data1
      in case normalize_value (dict_get data2 ''university'' (BStr [])) of
           Inl e \<Rightarrow> Inl e
         | Inr normalized \<Rightarrow>
             insert_one (AList.update ''normalized_name'' (BStr normalized) data2) c)"

text \<open>
  \<^verbatim>\<open>find_program(university, degree, field)\<close>, the three arguments strings as its
  docstring has them. \<^verbatim>\<open>if result:\<close> is Python's truth test: a dictionary is true
  when it is not empty.
\<close>

definition exact_query :: "string \<Rightarrow> string \<Rightarrow> string \<Rightarrow> query" where
  "exact_query normalized degree field =
     [(''normalized_name'', Equals (BStr normalized)),
      (''degree'', Equals (BStr degree)),
      (''field'', Regex field)]"

definition fuzzy_query :: "string \<Rightarrow> string \<Rightarrow> string \<Rightarrow> query" where
  "fuzzy_query normalized degree field =
     [(''normalized_name'', Regex normalized),
      (''degree'', Equals (BStr degree)),
      (''field'', Regex field)]"



text \<open>\<^verbatim>\<open>update_program(university, degree, field, new_data)\<close>.\<close>

definition update_program ::
  "(string \<Rightarrow> string \<Rightarrow> bool) \<Rightarrow> nat \<Rightarrow> collection \<Rightarrow> string \<Rightarrow> string \<Rightarrow> string \<Rightarrow> document
     \<Rightarrow> py_error + (bool \<times> collection)" where
  "update_program rx now c university degree field new_data =
     (case normalize_name university of
        Inl e \<Rightarrow> Inl e
      | Inr normalized \<Rightarrow>
          (case update_one rx (exact_query normalized degree field)
                  (AList.update ''updated_at'' (BDate now) new_data) c of
             Inl e \<Rightarrow> Inl e
           | Inr (modified_count, c') \<Rightarrow> Inr (modified_count > 0, c')))"

text \<open>
  What holds of every stored collection: each document carries an \<^verbatim>\<open>_id\<close>, an
  object id that the driver has already given out.
\<close>

definition has_oid :: "nat \<Rightarrow> document \<Rightarrow> bool" where
  "has_oid bound d = (case map_of d ''_id'' of Some (BObjectId k) \<Rightarrow> k < bound | _ \<Rightarrow> False)"

definition stored_ok :: "collection \<Rightarrow> bool" where
  "stored_ok c = list_all (has_oid (next_oid c)) (docs c)"

text \<open>
  The lookup key of a document, and a case-insensitive substring test: what the regular
  expression computes for a pattern without metacharacters.
\<close>

definition doc_key :: "document \<Rightarrow> bson option \<times> bson option \<times> bson option" where
  "doc_key d = (map_of d ''normalized_name'', map_of d ''degree'', map_of d ''field'')"

fun is_prefix :: "string \<Rightarrow> string \<Rightarrow> bool" where
  "is_prefix [] ys = True"
| "is_prefix (x # xs) [] = False"
| "is_prefix (x # xs) (y # ys) = (x = y \<and> is_prefix xs ys)"

fun contains :: "string \<Rightarrow> string \<Rightarrow> bool" where
  "contains p [] = (p = [])"
| "contains p (y # ys) = (is_prefix p (y # ys) \<or> contains p ys)"

definition icontains :: "string \<Rightarrow> string \<Rightarrow> bool" where
  "icontains p s = contains (lower p) (lower s)"

text \<open>A program as the extractor hands it to \<^verbatim>\<open>save_program\<close>, and as it is stored.\<close>

definition example_program :: document where
  "example_program =
     [(''university'', BStr ''MIT''), (''degree'', BStr ''Master''),
      (''field'', BStr ''Computer Science'')]"

definition stored_program :: "nat \<Rightarrow> nat \<Rightarrow> nat \<Rightarrow> document" where
  "stored_program created updated oid =
     example_program @
     [(''created_at'', BDate created), (''updated_at'', BDate updated),
      (''normalized_name'', BStr ''massachusetts institute of technology''),
      (''_id'', BObjectId oid)]"

subsection \<open>JavaScript values\<close>

text \<open>
  The values that \<^verbatim>\<open>JSON.parse\<close> yields, and \<^verbatim>\<open>undefined\<close>. Numbers are integers.
  An object is an association list read with \<^const>\<open>map_of\<close>.
\<close>

datatype js = JUndefined | JNull | JBool bool | JNum int | JStr string
  | JArr "js list" | JObj "(string \<times> js) list"

fun truthy :: "js \<Rightarrow> bool" where
  "truthy JUndefined = False"
| "truthy JNull = False"
| "truthy (JBool b) = b"
| "truthy (JNum n) = (n \<noteq> 0)"
| "truthy (JStr s) = (s \<noteq> [])"
| "truthy (JArr xs) = True"
| "truthy (JObj kvs) = True"

text \<open>
  Property access \<^verbatim>\<open>v.k\<close> for the names the sources use: it throws a
  \<^verbatim>\<open>TypeError\<close> on \<^verbatim>\<open>null\<close> and \<^verbatim>\<open>undefined\<close>; strings and arrays have
  \<^verbatim>\<open>length\<close>; a missing property is \<^verbatim>\<open>undefined\<close>.
\<close>

definition type_error :: "string \<Rightarrow> string" where
  "type_error k = ''TypeError: Cannot read properties of null (reading '' @ k @ '')''"

fun get_prop :: "js \<Rightarrow> string \<Rightarrow> string + js" where
  "get_prop JUndefined k = Inl (type_error k)"
| "get_prop JNull k = Inl (type_error k)"
| "get_prop (JObj kvs) k = Inr (case map_of kvs k of None \<Rightarrow> JUndefined | Some v \<Rightarrow> v)"
| "get_prop (JStr s) k = Inr (if k = ''length'' then JNum (int (length s)) else JUndefined)"
| "get_prop (JArr xs) k = Inr (if k = ''length'' then JNum (int (length xs)) else JUndefined)"
| "get_prop (JBool b) k = Inr JUndefined"
| "get_prop (JNum n) k = Inr JUndefined"

definition read_prop :: "js \<Rightarrow> string \<Rightarrow> js" where
  "read_prop v k = (case get_prop v k of Inl e \<Rightarrow> JUndefined | Inr x \<Rightarrow> x)"

text \<open>\<^verbatim>\<open>a || b\<close>.\<close>

definition js_or :: "js \<Rightarrow> js \<Rightarrow> js" where
  "js_or a b = (if truthy a then a else b)"

text \<open>Decimal digits, for \<^verbatim>\<open>toString\<close> of a number.\<close>

function show_nat :: "nat \<Rightarrow> string" where
  "show_nat n =
     (if n < 10 then [char_of (48 + n)] else show_nat (n div 10) @ [char_of (48 + n mod 10)])"
  by pat_completeness auto
termination
  by (relation "measure (\<lambda>n. n)") auto

declare show_nat.simps [simp del]

definition show_int :: "int \<Rightarrow> string" where
  "show_int i = (if i < 0 then CHR ''-'' # show_nat (nat (- i)) else show_nat (nat i))"

fun join_comma :: "string list \<Rightarrow> string" where
  "join_comma [] = []"
| "join_comma [x] = x"
| "join_comma (x # y # ys) = x @ '','' @ join_comma (y # ys)"

text \<open>The string a template literal \<^verbatim>\<open>${v}\<close> puts in for a value.\<close>

fun js_string :: "js \<Rightarrow> string" where
  "js_string JUndefined = ''undefined''"
| "js_string JNull = ''null''"
| "js_string (JBool b) = (if b then ''true'' else ''false'')"
| "js_string (JNum n) = show_int n"
| "js_string (JStr s) = s"
| "js_string (JArr xs) =
     join_comma (map (\<lambda>x. if x = JNull \<or> x = JUndefined then [] else js_string x) xs)"
| "js_string (JObj kvs) = ''[object Object]''"

text \<open>
  \<^verbatim>\<open>JSON.stringify({k1: v1, ...})\<close>, as the JSON document it writes: a property whose
  value is \<^verbatim>\<open>undefined\<close> is left out.
\<close>

definition stringify_object :: "(string \<times> js) list \<Rightarrow> js" where
  "stringify_object kvs = JObj (filter (\<lambda>kv. snd kv \<noteq> JUndefined) kvs)"

subsection \<open>Requests and \<^verbatim>\<open>fetch\<close>\<close>

record request =
  req_url :: string
  req_method :: string
  req_headers :: "(string \<times> string) list"
  req_body :: js

definition json_request :: "string \<Rightarrow> js \<Rightarrow> request" where
  "json_request u b =
     \<lparr>req_url = u, req_method = ''POST'',
      req_headers = [(''Content-Type'', ''application/json'')], req_body = b\<rparr>"

text \<open>
  \<^verbatim>\<open>await fetch(...)\<close> followed by \<^verbatim>\<open>await response.json()\<close>: either call may throw
  (the text is that of the error thrown), or the parsed body arrives.
\<close>

datatype fetch_result = FetchThrows string | JsonThrows string | Data js

definition is_data :: "fetch_result \<Rightarrow> bool" where
  "is_data r = (case r of Data d \<Rightarrow> True | FetchThrows e \<Rightarrow> False | JsonThrows e \<Rightarrow> False)"

subsection \<open>The route handlers \<^verbatim>\<open>src/app/api/{chat,search,findme}/route.ts\<close>\<close>

record http_response =
  res_status :: nat
  res_body :: js

record handled =
  response :: http_response
  sent :: "request list"
  console :: "string list"

text \<open>\<^verbatim>\<open>process.env.PYTHON_API_URL || 'http://localhost:5000'\<close>.\<close>

definition PYTHON_API_URL :: "string option \<Rightarrow> string" where
  "PYTHON_API_URL env =
     (case env of
        None \<Rightarrow> ''http://localhost:5000''
      | Some u \<Rightarrow> if u = [] then ''http://localhost:5000'' else u)"

definition ok_response :: "js \<Rightarrow> request list \<Rightarrow> handled" where
  "ok_response d reqs =
     \<lparr>response = \<lparr>res_status = 200, res_body = d\<rparr>, sent = reqs, console = []\<rparr>"

definition chat_failure :: "request list \<Rightarrow> handled" where
  "chat_failure reqs =
     \<lparr>response = \<lparr>res_status = 500, res_body = JObj
        [(''response'',
          JStr ''Sorry, I could not connect to the AI backend. Please try again later.'')]\<rparr>,
      sent = reqs, console = [''Chat API error:'']\<rparr>"

text \<open>
  The inbound body is \<open>None\<close> when \<^verbatim>\<open>request.json()\<close> throws. Destructuring
  \<^verbatim>\<open>null\<close> throws as well; once the first property is read the others cannot throw.
\<close>

definition chat_POST :: "string option \<Rightarrow> (request \<Rightarrow> fetch_result) \<Rightarrow> js option \<Rightarrow> handled" where
  "chat_POST env backend inbound =
     (case inbound of
        None \<Rightarrow> chat_failure []
      | Some b \<Rightarrow>
          (case get_prop b ''message'' of
             Inl e \<Rightarrow> chat_failure []
           | Inr message \<Rightarrow>
               (let req = json_request (PYTHON_API_URL env @ ''/api/chat'')
                            (stringify_object [(''message'', message)])
                in case backend req of
                     Data d \<Rightarrow> ok_response d [req]
                   | FetchThrows e \<Rightarrow> chat_failure [req]
                   | JsonThrows e \<Rightarrow> chat_failure [req])))"

definition search_failure :: "request list \<Rightarrow> handled" where
  "search_failure reqs =
     \<lparr>response = \<lparr>res_status = 500, res_body = JObj
        [(''source'', JStr ''error''),
         (''error'', JStr ''Failed to connect to backend. Make sure Python API is running.'')]\<rparr>,
      sent = reqs, console = [''Search API error:'']\<rparr>"

definition search_POST :: "string option \<Rightarrow> (request \<Rightarrow> fetch_result) \<Rightarrow> js option \<Rightarrow> handled" where
  "search_POST env backend inbound =
     (case inbound of
        None \<Rightarrow> search_failure []
      | Some b \<Rightarrow>
          (case get_prop b ''university'' of
             Inl e \<Rightarrow> search_failure []
           | Inr university \<Rightarrow>
               (let degree = read_prop b ''degree'';
                    field = read_prop b ''field'';
                    question = read_prop b ''question'';
                    fetchAll = read_prop b ''fetchAll'';
                    forceRefresh = read_prop b ''forceRefresh'';
                    endpoint = (if truthy fetchAll then ''/api/fetch_all'' else ''/api/search'');
                    req = json_request (PYTHON_API_URL env @ endpoint)
                            (stringify_object
                               [(''university'', university),
                                (''degree'', degree),
                                (''field'', field),
                                (''question'', question),
                                (''force_refresh'', js_or forceRefresh (JBool False))])
                in case backend req of
                     Data d \<Rightarrow> ok_response d [req]
                   | FetchThrows e \<Rightarrow> search_failure [req]
                   | JsonThrows e \<Rightarrow> search_failure [req])))"

definition findme_failure :: "request list \<Rightarrow> handled" where
  "findme_failure reqs =
     \<lparr>response = \<lparr>res_status = 500, res_body = JObj
        [(''error'', JStr ''Failed to connect to backend. Make sure Python API is running.'')]\<rparr>,
      sent = reqs, console = [''FindMe API error:'']\<rparr>"

definition findme_POST :: "string option \<Rightarrow> (request \<Rightarrow> fetch_result) \<Rightarrow> js option \<Rightarrow> handled" where
  "findme_POST env backend inbound =
     (case inbound of
        None \<Rightarrow> findme_failure []
      | Some b \<Rightarrow>
          (let req = json_request (PYTHON_API_URL env @ ''/api/findme'') b
           in case backend req of
                Data d \<Rightarrow> ok_response d [req]
              | FetchThrows e \<Rightarrow> findme_failure [req]
              | JsonThrows e \<Rightarrow> findme_failure [req]))"

subsection \<open>The submit handlers of \<^verbatim>\<open>SearchTab.tsx\<close> and \<^verbatim>\<open>FindForMeTab.tsx\<close>\<close>

text \<open>
  A handler run yields the component state after it, the arguments of its
  \<^verbatim>\<open>onAIMessage\<close> calls in order, and the requests it passed to \<^verbatim>\<open>fetch\<close>.
\<close>

record 'st run =
  final :: 'st
  notices :: "js list"
  fetched :: "request list"

datatype degree = Bachelor | Master | PhD

fun degree_name :: "degree \<Rightarrow> string" where
  "degree_name Bachelor = ''Bachelor''"
| "degree_name Master = ''Master''"
| "degree_name PhD = ''PhD''"

record search_tab =
  s_university :: string
  s_degree :: degree
  s_field :: string
  s_question :: string
  s_fetchAll :: bool
  s_loading :: bool
  s_result :: js

definition search_caught :: "search_tab \<Rightarrow> js \<Rightarrow> string \<Rightarrow> request \<Rightarrow> search_tab run" where
  "search_caught st searching e req =
     \<lparr>final = st\<lparr>s_result := JObj [(''source'', JStr ''error'')], s_loading := False\<rparr>,
      notices = [searching, JStr (''Error: '' @ e)],
      fetched = [req]\<rparr>"

definition handleSearch :: "(request \<Rightarrow> fetch_result) \<Rightarrow> search_tab \<Rightarrow> search_tab run" where
  "handleSearch net st =
     (if s_university st = [] \<or> s_field st = []
      then \<lparr>final = st,
            notices = [JStr ''Please enter university name and field of study''],
            fetched = []\<rparr>
      else if \<not> s_fetchAll st \<and> s_question st = []
      then \<lparr>final = st,
            notices = [JStr (''Please enter your question or check '' @ [CHR 0x22]
                             @ ''Fetch ALL'' @ [CHR 0x22] @ '' box'')],
            fetched = []\<rparr>
      else
        (let searching = JStr (''Searching for '' @ s_university st @ '' - ''
                               @ degree_name (s_degree st) @ '' in '' @ s_field st @ ''...'');
             req = json_request ''/api/search''
                     (stringify_object
                        [(''university'', JStr (s_university st)),
                         (''degree'', JStr (degree_name (s_degree st))),
                         (''field'', JStr (s_field st)),
                         (''question'', JStr (if s_fetchAll st then ''all'' else s_question st)),
                         (''fetchAll'', JBool (s_fetchAll st))])
         in case net req of
              FetchThrows e \<Rightarrow> search_caught st searching e req
            | JsonThrows e \<Rightarrow> search_caught st searching e req
            | Data d \<Rightarrow>
                (case get_prop d ''source'' of
                   Inl e \<Rightarrow> search_caught st searching e req
                 | Inr src \<Rightarrow>
                     \<lparr>final = st\<lparr>s_result := d, s_loading := False\<rparr>,
                      notices =
                        [searching,
                         if src = JStr ''cache''
                         then JStr (''Found data from database (''
                                    @ js_string (js_or (read_prop d ''data_year'') (JStr ''N/A''))
                                    @ '')'')
                         else if src = JStr ''claude''
                         then JStr ''Fresh data fetched from AI and stored in database''
                         else JStr (''Error: ''
                                    @ js_string (js_or (read_prop d ''error'')
                                                   (JStr ''Unknown error'')))],
                      fetched = [req]\<rparr>)))"

record requirements =
  r_degree :: string
  r_field :: string
  r_maxTuition :: string
  r_minGPA :: string
  r_englishTest :: string
  r_englishScore :: string
  r_country :: string
  r_preferScholarship :: bool

record findme_tab =
  f_requirements :: requirements
  f_loading :: bool
  f_results :: js
  f_totalInDatabase :: js

definition find_caught :: "findme_tab \<Rightarrow> js \<Rightarrow> string \<Rightarrow> request \<Rightarrow> findme_tab run" where
  "find_caught st searching e req =
     \<lparr>final = st\<lparr>f_results := JArr [], f_loading := False\<rparr>,
      notices = [searching, JStr (''Error: '' @ e)],
      fetched = [req]\<rparr>"

definition handleFind :: "(request \<Rightarrow> fetch_result) \<Rightarrow> findme_tab \<Rightarrow> findme_tab run" where
  "handleFind net st =
     (let r = f_requirements st
      in if r_field r = []
         then \<lparr>final = st, notices = [JStr ''Please enter your field of study''], fetched = []\<rparr>
         else
           (let searching = JStr ''RAG is searching your local database...'';
                req = json_request ''/api/findme''
                        (stringify_object
                           [(''degree'', JStr (r_degree r)),
                            (''field'', JStr (r_field r)),
                            (''maxTuition'', JStr (r_maxTuition r)),
                            (''minGPA'', JStr (r_minGPA r)),
                            (''englishTest'', JStr (r_englishTest r)),
                            (''englishScore'', JStr (r_englishScore r)),
                            (''country'', JStr (r_country r)),
                            (''preferScholarship'', JBool (r_preferScholarship r)),
                            (''top_k'', JNum 5)])
            in case net req of
                 FetchThrows e \<Rightarrow> find_caught st searching e req
               | JsonThrows e \<Rightarrow> find_caught st searching e req
               | Data d \<Rightarrow>
                   (case get_prop d ''universities'' of
                      Inl e \<Rightarrow> find_caught st searching e req
                    | Inr universities \<Rightarrow>
                        if truthy universities
                        then \<lparr>final = st\<lparr>f_results := universities,
                                         f_totalInDatabase :=
                                           js_or (read_prop d ''total_in_database'') (JNum 0),
                                         f_loading := False\<rparr>,
                              notices =
                                [searching,
                                 JStr (''Found '' @ js_string (read_prop universities ''length'')
                                       @ '' best matches from ''
                                       @ js_string (read_prop d ''total_in_database'')
                                       @ '' universities! (RAG - Local Search)'')],
                              fetched = [req]\<rparr>
                        else \<lparr>final = st\<lparr>f_results := JArr [], f_loading := False\<rparr>,
                              notices =
                                [searching,
                                 js_or (read_prop d ''error'') (JStr ''No universities found'')],
                              fetched = [req]\<rparr>)))"

subsection \<open>The system-message effect of \<^verbatim>\<open>AIChat.tsx\<close>\<close>

datatype sender = User | AI

record message =
  msg_id :: string
  msg_text :: string
  msg_sender :: sender
  msg_timestamp :: nat

text \<open>
  The state update that the effect passes to \<^verbatim>\<open>setMessages\<close>, applied to the
  transcript \<open>prev\<close>. \<open>now_id\<close> is the value of \<^verbatim>\<open>Date.now()\<close> and \<open>now_ts\<close>
  the time of \<^verbatim>\<open>new Date()\<close>, both in milliseconds.
\<close>

definition ingest :: "nat \<Rightarrow> nat \<Rightarrow> string list \<Rightarrow> message list \<Rightarrow> message list" where
  "ingest now_id now_ts systemMessages prev =
     (if length systemMessages > 0
      then (let lastMessage = systemMessages ! (length systemMessages - 1);
                existingTexts = map msg_text prev
            in if lastMessage \<notin> set existingTexts
               then prev @ [\<lparr>msg_id = show_nat now_id, msg_text = lastMessage,
                             msg_sender = AI, msg_timestamp = now_ts\<rparr>]
               else prev)
      else prev)"

subsection \<open>The Match Scorer\<close>







section \<open>Properties\<close>

subsection \<open>Lowercasing and stripping\<close>










subsection \<open>The name normalizer\<close>

lemma normalize_name_eq:
  "normalize_name name =
     Inr (case map_of abbreviations (strip (lower name)) of
            Some expansion \<Rightarrow> expansion | None \<Rightarrow> strip (lower name))"
  by (simp add: normalize_name_def Let_def dict_contains_def dict_index_def split: option.splits)





lemma normalize_name_examples:
  "normalize_name '' MIT '' = normalize_name ''mit''"
  "normalize_name ''Mit'' = normalize_name ''mit''"
  "normalize_name ''mit'' = Inr ''massachusetts institute of technology''"
  "normalize_name ''  Harvard  '' = Inr ''harvard''"
  by code_simp+

subsection \<open>The form handlers\<close>

lemma handleSearch_question_missing:
  "\<not> s_fetchAll st \<and> s_question st = [] \<Longrightarrow>
     fetched (handleSearch net st) = [] \<and> final (handleSearch net st) = st"
  by (simp add: handleSearch_def Let_def)

lemma handleSearch_submits:
  "s_university st \<noteq> [] \<Longrightarrow> s_field st \<noteq> [] \<Longrightarrow> s_fetchAll st \<or> s_question st \<noteq> [] \<Longrightarrow>
     length (fetched (handleSearch net st)) = 1"
  by (auto simp add: handleSearch_def Let_def search_caught_def
      split: fetch_result.splits sum.splits)

text \<open>
  Claim C8. When a required input is missing (the university or the field of the search
  form, the field of the find-me form), the submit handler passes no request to
  \<^verbatim>\<open>fetch\<close> and leaves the component state, the result with it, as it was.
\<close>

theorem validation_before_io:
  "(s_university st = [] \<or> s_field st = [] \<longrightarrow>
      fetched (handleSearch net st) = [] \<and> final (handleSearch net st) = st)
   \<and> (r_field (f_requirements ft) = [] \<longrightarrow>
      fetched (handleFind net ft) = [] \<and> final (handleFind net ft) = ft)"
  by (simp add: handleSearch_def handleFind_def Let_def)

theorem validation_before_io_witness:
  "fetched (handleSearch (\<lambda>r. Data JNull)
      \<lparr>s_university = ''MIT'', s_degree = Master, s_field = [], s_question = ''tuition'',
       s_fetchAll = False, s_loading = False, s_result = JNull\<rparr>) = []
   \<and> final (handleSearch (\<lambda>r. Data JNull)
      \<lparr>s_university = ''MIT'', s_degree = Master, s_field = [], s_question = ''tuition'',
       s_fetchAll = False, s_loading = False, s_result = JNull\<rparr>) =
      \<lparr>s_university = ''MIT'', s_degree = Master, s_field = [], s_question = ''tuition'',
       s_fetchAll = False, s_loading = False, s_result = JNull\<rparr>
   \<and> fetched (handleFind (\<lambda>r. Data JNull)
      \<lparr>f_requirements = \<lparr>r_degree = ''Master'', r_field = [], r_maxTuition = ''50000'',
         r_minGPA = [], r_englishTest = ''TOEFL'', r_englishScore = [], r_country = ''USA'',
         r_preferScholarship = False\<rparr>,
       f_loading = False, f_results = JArr [], f_totalInDatabase = JNum 0\<rparr>) = []"
  using validation_before_io [of
      "\<lparr>s_university = ''MIT'', s_degree = Master, s_field = [], s_question = ''tuition'',
       s_fetchAll = False, s_loading = False, s_result = JNull\<rparr>"
      "\<lambda>r. Data JNull"
      "\<lparr>f_requirements = \<lparr>r_degree = ''Master'', r_field = [], r_maxTuition = ''50000'',
         r_minGPA = [], r_englishTest = ''TOEFL'', r_englishScore = [], r_country = ''USA'',
         r_preferScholarship = False\<rparr>,
       f_loading = False, f_results = JArr [], f_totalInDatabase = JNum 0\<rparr>"]
  by simp

subsection \<open>The chat route forwards the message only\<close>

text \<open>
  Claim C9. The chat route handler forwards only the \<^verbatim>\<open>message\<close> field: two inbound
  bodies with the same \<^verbatim>\<open>message\<close> make it send the same requests to the backend, and
  so return the same response.
\<close>

theorem chat_forwards_message_only:
  assumes "get_prop b1 ''message'' = get_prop b2 ''message''"
  shows "sent (chat_POST env backend (Some b1)) = sent (chat_POST env backend (Some b2))
         \<and> chat_POST env backend (Some b1) = chat_POST env backend (Some b2)"
  using assms by (simp add: chat_POST_def)

theorem chat_forwards_message_only_witness:
  "get_prop (JObj [(''message'', JStr ''hi''), (''role'', JStr ''admin'')]) ''message'' =
     get_prop (JObj [(''message'', JStr ''hi'')]) ''message''
   \<and> sent (chat_POST None (\<lambda>r. Data (JObj [(''response'', JStr ''hello'')]))
        (Some (JObj [(''message'', JStr ''hi''), (''role'', JStr ''admin'')])))
     = sent (chat_POST None (\<lambda>r. Data (JObj [(''response'', JStr ''hello'')]))
        (Some (JObj [(''message'', JStr ''hi'')])))
   \<and> sent (chat_POST None (\<lambda>r. Data (JObj [(''response'', JStr ''hello'')]))
        (Some (JObj [(''message'', JStr ''hi''), (''role'', JStr ''admin'')])))
     = [json_request ''http://localhost:5000/api/chat'' (JObj [(''message'', JStr ''hi'')])]"
proof -
  have h: "get_prop (JObj [(''message'', JStr ''hi''), (''role'', JStr ''admin'')]) ''message'' =
     get_prop (JObj [(''message'', JStr ''hi'')]) ''message''"
    by simp
  have s: "sent (chat_POST None (\<lambda>r. Data (JObj [(''response'', JStr ''hello'')]))
        (Some (JObj [(''message'', JStr ''hi'')])))
     = [json_request ''http://localhost:5000/api/chat'' (JObj [(''message'', JStr ''hi'')])]"
    by (simp add: chat_POST_def PYTHON_API_URL_def stringify_object_def ok_response_def)
  from chat_forwards_message_only [OF h, of None "\<lambda>r. Data (JObj [(''response'', JStr ''hello'')])"] h s
  show ?thesis by simp
qed

subsection \<open>The chat widget's system messages\<close>

text \<open>
  Claim C10. For a non-empty list of system messages the update appends exactly one AI
  message with the text of the last system message when no message of the transcript
  has that text, and returns the transcript unchanged when one has; applying the update
  again changes nothing.
\<close>

theorem ingest_last_once:
  assumes "systemMessages \<noteq> []"
  shows "(if last systemMessages \<in> set (map msg_text prev)
          then ingest now_id now_ts systemMessages prev = prev
          else ingest now_id now_ts systemMessages prev =
                 prev @ [\<lparr>msg_id = show_nat now_id, msg_text = last systemMessages,
                           msg_sender = AI, msg_timestamp = now_ts\<rparr>])
         \<and> ingest t3 t4 systemMessages (ingest now_id now_ts systemMessages prev) =
             ingest now_id now_ts systemMessages prev"
  using assms
  by (simp add: ingest_def Let_def last_conv_nth)

theorem ingest_last_once_witness:
  "[''Searching...'', ''Found data''] \<noteq> ([] :: string list)
   \<and> ingest 17 18 [''Searching...'', ''Found data'']
         [\<lparr>msg_id = ''3'', msg_text = ''Searching...'', msg_sender = AI, msg_timestamp = 3\<rparr>] =
       [\<lparr>msg_id = ''3'', msg_text = ''Searching...'', msg_sender = AI, msg_timestamp = 3\<rparr>,
        \<lparr>msg_id = show_nat 17, msg_text = ''Found data'', msg_sender = AI, msg_timestamp = 18\<rparr>]
   \<and> ingest 17 18 [''Searching...'', ''Found data'']
         [\<lparr>msg_id = ''3'', msg_text = ''Found data'', msg_sender = User, msg_timestamp = 3\<rparr>] =
       [\<lparr>msg_id = ''3'', msg_text = ''Found data'', msg_sender = User, msg_timestamp = 3\<rparr>]"
  using ingest_last_once [of "[''Searching...'', ''Found data'']"
      "[\<lparr>msg_id = ''3'', msg_text = ''Searching...'', msg_sender = AI, msg_timestamp = 3\<rparr>]" 17 18 0 0]
    ingest_last_once [of "[''Searching...'', ''Found data'']"
      "[\<lparr>msg_id = ''3'', msg_text = ''Found data'', msg_sender = User, msg_timestamp = 3\<rparr>]" 17 18 0 0]
  by simp

subsection \<open>The route handlers\<close>

lemma failure_bodies:
  "read_prop (res_body (response (search_failure reqs))) ''source'' = JStr ''error''"
  "read_prop (res_body (response (search_failure reqs))) ''error'' =
     JStr ''Failed to connect to backend. Make sure Python API is running.''"
  "read_prop (res_body (response (findme_failure reqs))) ''source'' = JUndefined"
  "read_prop (res_body (response (findme_failure reqs))) ''error'' =
     JStr ''Failed to connect to backend. Make sure Python API is running.''"
  "read_prop (res_body (response (chat_failure reqs))) ''source'' = JUndefined"
  "read_prop (res_body (response (chat_failure reqs))) ''error'' = JUndefined"
  "read_prop (res_body (response (chat_failure reqs))) ''response'' =
     JStr ''Sorry, I could not connect to the AI backend. Please try again later.''"
  by (simp_all add: search_failure_def findme_failure_def chat_failure_def read_prop_def)

lemma failure_status:
  "res_status (response (search_failure reqs)) = 500"
  "res_status (response (findme_failure reqs)) = 500"
  "res_status (response (chat_failure reqs)) = 500"
  "res_status (response (ok_response d reqs)) = 200"
  "res_body (response (ok_response d reqs)) = d"
  by (simp_all add: search_failure_def findme_failure_def chat_failure_def ok_response_def)

lemma search_POST_cases:
  "(\<exists>reqs. search_POST env backend inbound = search_failure reqs)
   \<or> (\<exists>req d. backend req = Data d \<and> search_POST env backend inbound = ok_response d [req])"
  by (auto simp add: search_POST_def Let_def split: option.splits sum.splits fetch_result.splits)

lemma findme_POST_cases:
  "(\<exists>reqs. findme_POST env backend inbound = findme_failure reqs)
   \<or> (\<exists>req d. backend req = Data d \<and> findme_POST env backend inbound = ok_response d [req])"
  by (auto simp add: findme_POST_def Let_def split: option.splits sum.splits fetch_result.splits)

lemma chat_POST_cases:
  "(\<exists>reqs. chat_POST env backend inbound = chat_failure reqs)
   \<or> (\<exists>req d. backend req = Data d \<and> chat_POST env backend inbound = ok_response d [req])"
  by (auto simp add: chat_POST_def Let_def split: option.splits sum.splits fetch_result.splits)

text \<open>
  Claim C6, as stated: every response of the three handlers carries a \<^verbatim>\<open>source\<close>
  discriminator, \<^verbatim>\<open>"error"\<close> on the handler's own failure path. The failure bodies of
  the find-me and chat handlers have no \<^verbatim>\<open>source\<close> property.
\<close>

theorem failure_source_counterexample:
  "read_prop (res_body (response
      (findme_POST None (\<lambda>r. FetchThrows ''connect ECONNREFUSED'')
         (Some (JObj [(''field'', JStr ''CS'')]))))) ''source'' = JUndefined
   \<and> read_prop (res_body (response
      (chat_POST None (\<lambda>r. FetchThrows ''connect ECONNREFUSED'')
         (Some (JObj [(''message'', JStr ''hi'')]))))) ''source'' = JUndefined"
  by (simp add: findme_POST_def chat_POST_def findme_failure_def chat_failure_def read_prop_def)

text \<open>
  Claim C6, amended. Only the search handler's failure body carries
  \<^verbatim>\<open>source = "error"\<close>; the failure bodies of the find-me and chat handlers carry no
  \<^verbatim>\<open>source\<close>; and a handler that does not fail returns the backend's JSON unchanged,
  so that a \<^verbatim>\<open>source\<close> is there exactly when the backend put one.
\<close>

theorem source_discriminator:
  "(res_status (response (search_POST env backend inbound)) = 500 \<longrightarrow>
      read_prop (res_body (response (search_POST env backend inbound))) ''source'' = JStr ''error'')
   \<and> (res_status (response (findme_POST env backend inbound)) = 500 \<longrightarrow>
      read_prop (res_body (response (findme_POST env backend inbound))) ''source'' = JUndefined)
   \<and> (res_status (response (chat_POST env backend inbound)) = 500 \<longrightarrow>
      read_prop (res_body (response (chat_POST env backend inbound))) ''source'' = JUndefined)
   \<and> (res_status (response (search_POST env backend inbound)) \<noteq> 500 \<longrightarrow>
      (\<exists>req. backend req = Data (res_body (response (search_POST env backend inbound)))))
   \<and> (res_status (response (findme_POST env backend inbound)) \<noteq> 500 \<longrightarrow>
      (\<exists>req. backend req = Data (res_body (response (findme_POST env backend inbound)))))
   \<and> (res_status (response (chat_POST env backend inbound)) \<noteq> 500 \<longrightarrow>
      (\<exists>req. backend req = Data (res_body (response (chat_POST env backend inbound)))))"
  using search_POST_cases [of env backend inbound] findme_POST_cases [of env backend inbound]
    chat_POST_cases [of env backend inbound]
  by (auto simp add: failure_bodies failure_status)

theorem source_discriminator_witness:
  "res_status (response (search_POST None (\<lambda>r. JsonThrows ''Unexpected token'')
      (Some (JObj [(''university'', JStr ''MIT'')])))) = 500
   \<and> read_prop (res_body (response (search_POST None (\<lambda>r. JsonThrows ''Unexpected token'')
      (Some (JObj [(''university'', JStr ''MIT'')]))))) ''source'' = JStr ''error''
   \<and> res_status (response (findme_POST None (\<lambda>r. JsonThrows ''Unexpected token'')
      (Some (JObj [(''university'', JStr ''MIT'')])))) = 500
   \<and> res_status (response (chat_POST None (\<lambda>r. JsonThrows ''Unexpected token'')
      (Some (JObj [(''university'', JStr ''MIT'')])))) = 500"
proof -
  have "res_status (response (search_POST None (\<lambda>r. JsonThrows ''Unexpected token'')
      (Some (JObj [(''university'', JStr ''MIT'')])))) = 500"
    and "res_status (response (findme_POST None (\<lambda>r. JsonThrows ''Unexpected token'')
      (Some (JObj [(''university'', JStr ''MIT'')])))) = 500"
    and "res_status (response (chat_POST None (\<lambda>r. JsonThrows ''Unexpected token'')
      (Some (JObj [(''university'', JStr ''MIT'')])))) = 500"
    by (simp_all add: search_POST_def findme_POST_def chat_POST_def Let_def failure_status)
  with source_discriminator [of None "\<lambda>r. JsonThrows ''Unexpected token''"
      "Some (JObj [(''university'', JStr ''MIT'')])"]
  show ?thesis by simp
qed

text \<open>
  Claim C7, as stated: when the backend call fails, each handler answers 500 with an
  \<^verbatim>\<open>error\<close> string in the body. The chat handler's body has no \<^verbatim>\<open>error\<close> property.
\<close>

theorem failure_error_field_counterexample:
  "res_status (response (chat_POST None (\<lambda>r. FetchThrows ''connect ECONNREFUSED'')
      (Some (JObj [(''message'', JStr ''hi'')])))) = 500
   \<and> read_prop (res_body (response (chat_POST None (\<lambda>r. FetchThrows ''connect ECONNREFUSED'')
      (Some (JObj [(''message'', JStr ''hi'')]))))) ''error'' = JUndefined"
  by (simp add: chat_POST_def chat_failure_def read_prop_def)

text \<open>
  Claim C7, amended. When the backend call fails (\<^verbatim>\<open>fetch\<close> throws or the body cannot
  be parsed), each handler answers with status 500 and an object: the search and
  find-me handlers with an \<^verbatim>\<open>error\<close> string, the chat handler with a
  \<^verbatim>\<open>response\<close> string and no \<^verbatim>\<open>error\<close>.
\<close>

theorem backend_failure_responses:
  assumes "\<And>req. \<not> is_data (backend req)"
  shows "res_status (response (search_POST env backend inbound)) = 500
    \<and> read_prop (res_body (response (search_POST env backend inbound))) ''error'' =
        JStr ''Failed to connect to backend. Make sure Python API is running.''
    \<and> res_status (response (findme_POST env backend inbound)) = 500
    \<and> read_prop (res_body (response (findme_POST env backend inbound))) ''error'' =
        JStr ''Failed to connect to backend. Make sure Python API is running.''
    \<and> res_status (response (chat_POST env backend inbound)) = 500
    \<and> read_prop (res_body (response (chat_POST env backend inbound))) ''response'' =
        JStr ''Sorry, I could not connect to the AI backend. Please try again later.''
    \<and> read_prop (res_body (response (chat_POST env backend inbound))) ''error'' = JUndefined
    \<and> (\<exists>kvs. res_body (response (search_POST env backend inbound)) = JObj kvs)
    \<and> (\<exists>kvs. res_body (response (findme_POST env backend inbound)) = JObj kvs)
    \<and> (\<exists>kvs. res_body (response (chat_POST env backend inbound)) = JObj kvs)"
proof -
  have nodata: "backend req \<noteq> Data d" for req d
    using assms [of req] by (auto simp add: is_data_def)
  obtain r1 where r1: "search_POST env backend inbound = search_failure r1"
    using search_POST_cases [of env backend inbound] nodata by auto
  obtain r2 where r2: "findme_POST env backend inbound = findme_failure r2"
    using findme_POST_cases [of env backend inbound] nodata by auto
  obtain r3 where r3: "chat_POST env backend inbound = chat_failure r3"
    using chat_POST_cases [of env backend inbound] nodata by auto
  show ?thesis
    unfolding r1 r2 r3
    by (simp add: failure_bodies failure_status)
      (simp add: search_failure_def findme_failure_def chat_failure_def)
qed

theorem backend_failure_responses_witness:
  "\<not> is_data (FetchThrows ''connect ECONNREFUSED'')
   \<and> res_status (response (findme_POST None (\<lambda>r. FetchThrows ''connect ECONNREFUSED'')
        (Some (JObj [(''field'', JStr ''CS'')])))) = 500
   \<and> read_prop (res_body (response (findme_POST None (\<lambda>r. FetchThrows ''connect ECONNREFUSED'')
        (Some (JObj [(''field'', JStr ''CS'')]))))) ''error'' =
        JStr ''Failed to connect to backend. Make sure Python API is running.''"
proof -
  have h: "\<not> is_data ((\<lambda>r. FetchThrows ''connect ECONNREFUSED'') req)" for req :: request
    by (simp add: is_data_def)
  from backend_failure_responses [of "\<lambda>r. FetchThrows ''connect ECONNREFUSED''" None
      "Some (JObj [(''field'', JStr ''CS'')])", OF h] h
  show ?thesis by simp
qed

subsection \<open>Looking a program up\<close>



lemma matches_exact_query:
  "matches rx (exact_query n degree field) d \<longleftrightarrow>
     map_of d ''normalized_name'' = Some (BStr n) \<and> map_of d ''degree'' = Some (BStr degree)
     \<and> (\<exists>s. map_of d ''field'' = Some (BStr s) \<and> rx field s)"
  by (auto simp add: matches_def exact_query_def split: option.splits bson.splits)

lemma matches_fuzzy_query:
  "matches rx (fuzzy_query n degree field) d \<longleftrightarrow>
     (\<exists>s. map_of d ''normalized_name'' = Some (BStr s) \<and> rx n s)
     \<and> map_of d ''degree'' = Some (BStr degree)
     \<and> (\<exists>s. map_of d ''field'' = Some (BStr s) \<and> rx field s)"
  by (auto simp add: matches_def fuzzy_query_def split: option.splits bson.splits)




subsection \<open>Saving and updating a program\<close>

lemma set_fields_Nil: "set_fields [] d = d"
  by (simp add: set_fields_def)

lemma set_fields_Cons: "set_fields (kv # nd) d = set_fields nd (AList.update (fst kv) (snd kv) d)"
  by (simp add: set_fields_def)

lemma set_fields_other:
  "k \<notin> fst ` set nd \<Longrightarrow> map_of (set_fields nd d) k = map_of d k"
  by (induction nd arbitrary: d) (auto simp add: set_fields_Nil set_fields_Cons update_conv')

lemma set_fields_member:
  "distinct (map fst nd) \<Longrightarrow> (k, v) \<in> set nd \<Longrightarrow> map_of (set_fields nd d) k = Some v"
proof (induction nd arbitrary: d)
  case Nil
  then show ?case by simp
next
  case (Cons kv nd)
  show ?case
  proof (cases "kv = (k, v)")
    case True
    with Cons.prems have "k \<notin> fst ` set nd" by auto
    then show ?thesis
      by (simp add: set_fields_Cons set_fields_other True update_conv')
  next
    case False
    with Cons show ?thesis by (simp add: set_fields_Cons)
  qed
qed

lemma stamp_in_new_data: "(''updated_at'', BDate now) \<in> set (AList.update ''updated_at'' (BDate now) nd)"
  by (induction nd) auto

lemma update_first_spec:
  "update_first P nd ds = Inr (n, ds') \<Longrightarrow>
     (if list_ex P ds
      then (\<exists>pre d post. ds = pre @ d # post \<and> \<not> list_ex P pre \<and> P d
              \<and> ds' = pre @ set_fields nd d # post
              \<and> n = (if set_fields nd d = d then 0 else 1))
      else ds' = ds \<and> n = 0)"
proof (induction ds arbitrary: n ds')
  case Nil
  then show ?case by simp
next
  case (Cons a ds)
  show ?case
  proof (cases "P a")
    case True
    with Cons.prems have "ds' = set_fields nd a # ds" "n = (if set_fields nd a = a then 0 else 1)"
      by (auto split: if_splits)
    with True have "a # ds = [] @ a # ds \<and> \<not> list_ex P [] \<and> P a
              \<and> ds' = [] @ set_fields nd a # ds
              \<and> n = (if set_fields nd a = a then 0 else 1)"
      by simp
    then have "\<exists>pre d post. a # ds = pre @ d # post \<and> \<not> list_ex P pre \<and> P d
              \<and> ds' = pre @ set_fields nd d # post
              \<and> n = (if set_fields nd d = d then 0 else 1)"
      by blast
    with True show ?thesis by simp
  next
    case False
    with Cons.prems obtain ds0 where r: "update_first P nd ds = Inr (n, ds0)" "ds' = a # ds0"
      by (auto split: sum.splits)
    show ?thesis
    proof (cases "list_ex P ds")
      case True
      with Cons.IH [OF r(1)] obtain pre d post where
        "ds = pre @ d # post" "\<not> list_ex P pre" "P d" "ds0 = pre @ set_fields nd d # post"
        "n = (if set_fields nd d = d then 0 else 1)"
        by auto
      with False r(2) have "a # ds = (a # pre) @ d # post \<and> \<not> list_ex P (a # pre) \<and> P d
              \<and> ds' = (a # pre) @ set_fields nd d # post
              \<and> n = (if set_fields nd d = d then 0 else 1)"
        by simp
      then have "\<exists>pre d post. a # ds = pre @ d # post \<and> \<not> list_ex P pre \<and> P d
              \<and> ds' = pre @ set_fields nd d # post
              \<and> n = (if set_fields nd d = d then 0 else 1)"
        by blast
      with True show ?thesis by simp
    next
      case nomatch: False
      with Cons.IH [OF r(1)] have "ds0 = ds" "n = 0" by auto
      with False nomatch r(2) show ?thesis by simp
    qed
  qed
qed

lemma update_first_length:
  "update_first P nd ds = Inr (n, ds') \<Longrightarrow> length ds' = length ds"
  by (induction ds arbitrary: n ds') (auto split: if_splits sum.splits)

lemma save_program_inserts:
  assumes "save_program now1 now2 data c = Inr (oid, c1)"
  shows "\<exists>d n. docs c1 = docs c @ [d]
           \<and> map_of d ''created_at'' = Some (BDate now1)
           \<and> map_of d ''updated_at'' = Some (BDate now2)
           \<and> normalize_value (dict_get data ''university'' (BStr [])) = Inr n
           \<and> map_of d ''normalized_name'' = Some (BStr n)
           \<and> map_of d ''_id'' = Some oid"
proof -
  define data2 where
    "data2 = AList.update ''updated_at'' (BDate now2) (AList.update ''created_at'' (BDate now1) data)"
  have uni: "dict_get data2 ''university'' (BStr []) = dict_get data ''university'' (BStr [])"
    by (simp add: data2_def dict_get_def update_conv')
  from assms obtain n where n: "normalize_value (dict_get data ''university'' (BStr [])) = Inr n"
    and ins: "insert_one (AList.update ''normalized_name'' (BStr n) data2) c = Inr (oid, c1)"
    by (auto simp add: save_program_def Let_def uni simp flip: data2_def split: sum.splits)
  define d3 where "d3 = AList.update ''normalized_name'' (BStr n) data2"
  define d where "d = (if dict_contains d3 ''_id'' then d3 else d3 @ [(''_id'', BObjectId (next_oid c))])"
  have m3: "map_of d3 ''created_at'' = Some (BDate now1)"
    "map_of d3 ''updated_at'' = Some (BDate now2)"
    "map_of d3 ''normalized_name'' = Some (BStr n)"
    by (simp_all add: d3_def data2_def update_conv')
  from ins have c1: "docs c1 = docs c @ [d]" and oid: "oid = dict_get d ''_id'' BNull"
    by (auto simp add: insert_one_def Let_def simp flip: d3_def d_def split: if_splits)
  have md: "map_of d ''created_at'' = Some (BDate now1)"
    "map_of d ''updated_at'' = Some (BDate now2)"
    "map_of d ''normalized_name'' = Some (BStr n)"
    using m3 by (simp_all add: d_def)
  have "map_of d ''_id'' = Some oid"
    by (auto simp add: oid d_def dict_get_def dict_contains_def map_add_def split: option.splits)
  with c1 md n show ?thesis by blast
qed


lemma update_program_rewrites:
  assumes dist: "distinct (map fst new_data)"
    and upd: "update_program rx now c university degree field new_data = Inr (modified, c2)"
  shows "\<exists>n. normalize_name university = Inr n \<and>
     (if list_ex (matches rx (exact_query n degree field)) (docs c)
      then (\<exists>pre d post. docs c = pre @ d # post
              \<and> \<not> list_ex (matches rx (exact_query n degree field)) pre
              \<and> matches rx (exact_query n degree field) d
              \<and> docs c2 = pre @ set_fields (AList.update ''updated_at'' (BDate now) new_data) d # post
              \<and> map_of (set_fields (AList.update ''updated_at'' (BDate now) new_data) d) ''updated_at''
                  = Some (BDate now)
              \<and> (''created_at'' \<notin> fst ` set new_data \<longrightarrow>
                   map_of (set_fields (AList.update ''updated_at'' (BDate now) new_data) d) ''created_at''
                     = map_of d ''created_at'')
              \<and> modified = (set_fields (AList.update ''updated_at'' (BDate now) new_data) d \<noteq> d))
      else c2 = c \<and> \<not> modified)"
proof -
  define nd where "nd = AList.update ''updated_at'' (BDate now) new_data"
  obtain n where n: "normalize_name university = Inr n"
    using normalize_name_eq by blast
  define P where "P = matches rx (exact_query n degree field)"
  from upd obtain k ds' where uf: "update_first P nd (docs c) = Inr (k, ds')"
    and res: "modified = (k > 0)" "c2 = c\<lparr>docs := ds'\<rparr>"
    by (auto simp add: update_program_def update_one_def n P_def nd_def split: sum.splits)
  have stamp: "map_of (set_fields nd d) ''updated_at'' = Some (BDate now)" for d
    using set_fields_member [of nd "''updated_at''" "BDate now" d] dist
    by (simp add: nd_def distinct_update stamp_in_new_data)
  have keep: "''created_at'' \<notin> fst ` set new_data \<Longrightarrow>
      map_of (set_fields nd d) ''created_at'' = map_of d ''created_at''" for d
    by (rule set_fields_other) (simp add: nd_def dom_update)
  show ?thesis
  proof (cases "list_ex P (docs c)")
    case True
    with update_first_spec [OF uf] obtain pre d post where
      "docs c = pre @ d # post" "\<not> list_ex P pre" "P d" "ds' = pre @ set_fields nd d # post"
      "k = (if set_fields nd d = d then 0 else 1)"
      by auto
    with res stamp [of d] keep [of d]
    have "docs c = pre @ d # post \<and> \<not> list_ex P pre \<and> P d
        \<and> docs c2 = pre @ set_fields nd d # post
        \<and> map_of (set_fields nd d) ''updated_at'' = Some (BDate now)
        \<and> (''created_at'' \<notin> fst ` set new_data \<longrightarrow>
              map_of (set_fields nd d) ''created_at'' = map_of d ''created_at'')
        \<and> modified = (set_fields nd d \<noteq> d)"
      by simp
    then have "\<exists>pre d post. docs c = pre @ d # post \<and> \<not> list_ex P pre \<and> P d
        \<and> docs c2 = pre @ set_fields nd d # post
        \<and> map_of (set_fields nd d) ''updated_at'' = Some (BDate now)
        \<and> (''created_at'' \<notin> fst ` set new_data \<longrightarrow>
              map_of (set_fields nd d) ''created_at'' = map_of d ''created_at'')
        \<and> modified = (set_fields nd d \<noteq> d)"
      by blast
    with True n show ?thesis
      unfolding P_def nd_def by simp
  next
    case False
    with update_first_spec [OF uf] have "ds' = docs c" "k = 0" by auto
    with res have "c2 = c" "\<not> modified" by simp_all
    with False n show ?thesis
      unfolding P_def by simp
  qed
qed

lemma has_oid_mono: "has_oid b d \<Longrightarrow> b \<le> b' \<Longrightarrow> has_oid b' d"
  by (auto simp add: has_oid_def split: option.splits bson.splits)

lemma save_program_succeeds:
  assumes ok: "stored_ok c" and noid: "\<not> dict_contains data ''_id''"
    and uni: "dict_get data ''university'' (BStr []) = BStr s"
  shows "\<exists>c1. save_program now1 now2 data c = Inr (BObjectId (next_oid c), c1) \<and> stored_ok c1"
proof -
  define data2 where
    "data2 = AList.update ''updated_at'' (BDate now2) (AList.update ''created_at'' (BDate now1) data)"
  obtain n where n: "normalize_name s = Inr n"
    using normalize_name_eq by blast
  define d3 where "d3 = AList.update ''normalized_name'' (BStr n) data2"
  have uni2: "dict_get data2 ''university'' (BStr []) = BStr s"
    using uni by (simp add: data2_def dict_get_def update_conv')
  have noid3: "\<not> dict_contains d3 ''_id''"
    using noid by (simp add: d3_def data2_def dict_contains_def update_conv')
  have fresh: "\<not> list_ex (\<lambda>e. map_of e ''_id'' = Some (BObjectId (next_oid c))) (docs c)"
    using ok by (auto simp add: stored_ok_def list_all_iff list_ex_iff has_oid_def)
  have new: "map_of (d3 @ [(''_id'', BObjectId (next_oid c))]) ''_id'' = Some (BObjectId (next_oid c))"
    using noid3 by (simp add: dict_contains_def map_add_def)
  have "save_program now1 now2 data c = insert_one d3 c"
    unfolding save_program_def Let_def data2_def [symmetric] uni2
    by (simp add: normalize_value_def n d3_def)
  also have "\<dots> =
      Inr (BObjectId (next_oid c),
           \<lparr>docs = docs c @ [d3 @ [(''_id'', BObjectId (next_oid c))]], next_oid = Suc (next_oid c)\<rparr>)"
    using noid3 fresh new
    by (simp add: insert_one_def Let_def dict_get_def)
  finally have sp: "save_program now1 now2 data c =
      Inr (BObjectId (next_oid c),
           \<lparr>docs = docs c @ [d3 @ [(''_id'', BObjectId (next_oid c))]], next_oid = Suc (next_oid c)\<rparr>)" .
  have "stored_ok \<lparr>docs = docs c @ [d3 @ [(''_id'', BObjectId (next_oid c))]], next_oid = Suc (next_oid c)\<rparr>"
    using ok new
    by (auto simp add: stored_ok_def list_all_iff has_oid_def [of _ "d3 @ _"] intro: has_oid_mono)
  with sp show ?thesis by blast
qed

lemma stored_ok_empty: "stored_ok empty_collection"
  by (simp add: stored_ok_def empty_collection_def)

lemma set_fields_keeps_oid:
  assumes "distinct (map fst nd)" and "has_oid b d"
    and "\<not> (dict_contains nd ''_id'' \<and> map_of nd ''_id'' \<noteq> map_of d ''_id'')"
  shows "has_oid b (set_fields nd d)"
proof (cases "map_of nd ''_id''")
  case None
  then have "''_id'' \<notin> fst ` set nd"
    by (simp add: map_of_eq_None_iff)
  then have "map_of (set_fields nd d) ''_id'' = map_of d ''_id''"
    by (rule set_fields_other)
  with assms(2) show ?thesis by (simp add: has_oid_def)
next
  case (Some v)
  with assms(3) have same: "map_of d ''_id'' = Some v"
    by (simp add: dict_contains_def)
  from Some have "(''_id'', v) \<in> set nd"
    by (rule map_of_SomeD)
  with assms(1) have "map_of (set_fields nd d) ''_id'' = Some v"
    by (rule set_fields_member)
  with assms(2) same show ?thesis by (simp add: has_oid_def)
qed

lemma update_first_keeps_oid:
  "distinct (map fst nd) \<Longrightarrow> list_all (has_oid b) ds \<Longrightarrow>
     update_first P nd ds = Inr (n, ds') \<Longrightarrow> list_all (has_oid b) ds'"
proof (induction ds arbitrary: n ds')
  case Nil
  then show ?case by simp
next
  case (Cons a ds)
  show ?case
  proof (cases "P a")
    case True
    with Cons.prems(3)
    have ok: "\<not> (dict_contains nd ''_id'' \<and> map_of nd ''_id'' \<noteq> map_of a ''_id'')"
      and ds': "ds' = set_fields nd a # ds"
      by (auto split: if_splits)
    from Cons.prems(1,2) ok have "has_oid b (set_fields nd a)"
      by (intro set_fields_keeps_oid) simp_all
    with Cons.prems(2) ds' show ?thesis by simp
  next
    case False
    with Cons.prems(3) obtain ds0 where r: "update_first P nd ds = Inr (n, ds0)" "ds' = a # ds0"
      by (auto split: sum.splits)
    from Cons.prems(2) have "list_all (has_oid b) ds" by simp
    with Cons.IH [OF Cons.prems(1) _ r(1)] have "list_all (has_oid b) ds0" by simp
    with Cons.prems(2) r(2) show ?thesis by simp
  qed
qed

lemma update_program_stored_ok:
  assumes "distinct (map fst new_data)" and "stored_ok c"
    and "update_program rx now c university degree field new_data = Inr (modified, c2)"
  shows "stored_ok c2"
proof -
  from assms(3) obtain n k ds' where
    uf: "update_first (matches rx (exact_query n degree field))
           (AList.update ''updated_at'' (BDate now) new_data) (docs c) = Inr (k, ds')"
    and c2: "c2 = c\<lparr>docs := ds'\<rparr>"
    by (auto simp add: update_program_def update_one_def split: sum.splits)
  from assms(1) have "distinct (map fst (AList.update ''updated_at'' (BDate now) new_data))"
    by (rule distinct_update)
  from update_first_keeps_oid [OF this _ uf, of "next_oid c"] assms(2)
  show ?thesis by (simp add: stored_ok_def c2)
qed

text \<open>
  Claim C4, as stated: a save inserts when no document has the key and replaces the
  fields of the existing document otherwise, so that no two documents share a key.
  Saving the same program twice stores it twice.
\<close>

theorem saves_accumulate_counterexample:
  "save_program 1 1 example_program empty_collection =
     Inr (BObjectId 0, \<lparr>docs = [stored_program 1 1 0], next_oid = 1\<rparr>)
   \<and> save_program 2 2 example_program \<lparr>docs = [stored_program 1 1 0], next_oid = 1\<rparr> =
     Inr (BObjectId 1, \<lparr>docs = [stored_program 1 1 0, stored_program 2 2 1], next_oid = 2\<rparr>)
   \<and> doc_key (stored_program 1 1 0) = doc_key (stored_program 2 2 1)"
  by code_simp

text \<open>
  Claim C4, amended. \<^verbatim>\<open>save_program\<close> always inserts: it appends one new document
  stamped with the creation time, the update time and the normalized name, whether or
  not a document with the same key is stored, and on a stored collection it succeeds for
  a program without \<^verbatim>\<open>_id\<close> whose university is a string. Replacing fields is the
  separate \<^verbatim>\<open>update_program\<close>: it inserts nothing; when no document matches it
  leaves the collection as it is and reports \<^verbatim>\<open>False\<close>; otherwise it rewrites the first
  matching document only, setting the given fields and the update time and keeping
  the creation time unless the new data sets it.
\<close>

theorem save_inserts_update_rewrites:
  assumes "distinct (map fst new_data)"
  shows "(save_program now1 now2 data c = Inr (oid, c1) \<longrightarrow>
      (\<exists>d n. docs c1 = docs c @ [d]
         \<and> map_of d ''created_at'' = Some (BDate now1)
         \<and> map_of d ''updated_at'' = Some (BDate now2)
         \<and> normalize_value (dict_get data ''university'' (BStr [])) = Inr n
         \<and> map_of d ''normalized_name'' = Some (BStr n)
         \<and> map_of d ''_id'' = Some oid))
    \<and> (stored_ok c \<and> \<not> dict_contains data ''_id''
          \<and> dict_get data ''university'' (BStr []) = BStr s \<longrightarrow>
      (\<exists>c'. save_program now1 now2 data c = Inr (BObjectId (next_oid c), c') \<and> stored_ok c'))
    \<and> (update_program rx now c university degree field new_data = Inr (modified, c2) \<longrightarrow>
      (\<exists>n. normalize_name university = Inr n \<and>
        (if list_ex (matches rx (exact_query n degree field)) (docs c)
         then (\<exists>pre d post. docs c = pre @ d # post
              \<and> \<not> list_ex (matches rx (exact_query n degree field)) pre
              \<and> matches rx (exact_query n degree field) d
              \<and> docs c2 = pre @ set_fields (AList.update ''updated_at'' (BDate now) new_data) d # post
              \<and> map_of (set_fields (AList.update ''updated_at'' (BDate now) new_data) d) ''updated_at''
                  = Some (BDate now)
              \<and> (''created_at'' \<notin> fst ` set new_data \<longrightarrow>
                   map_of (set_fields (AList.update ''updated_at'' (BDate now) new_data) d) ''created_at''
                     = map_of d ''created_at'')
              \<and> modified = (set_fields (AList.update ''updated_at'' (BDate now) new_data) d \<noteq> d))
         else c2 = c \<and> \<not> modified)))"
  using save_program_inserts [of now1 now2 data c oid c1]
    save_program_succeeds [of c data s now1 now2]
    update_program_rewrites [OF assms, of rx now c university degree field modified c2]
  by blast

theorem save_inserts_update_rewrites_witness:
  "distinct (map fst [(''tuition_fees'', BStr ''$60,000'')])
   \<and> save_program 1 2 example_program empty_collection =
       Inr (BObjectId 0, \<lparr>docs = [stored_program 1 2 0], next_oid = 1\<rparr>)
   \<and> update_program icontains 9 \<lparr>docs = [stored_program 1 2 0], next_oid = 1\<rparr>
         ''MIT'' ''Master'' ''computer'' [(''tuition_fees'', BStr ''$60,000'')] =
       Inr (True, \<lparr>docs = [stored_program 1 9 0 @ [(''tuition_fees'', BStr ''$60,000'')]],
                    next_oid = 1\<rparr>)
   \<and> update_program icontains 9 \<lparr>docs = [stored_program 1 2 0], next_oid = 1\<rparr>
         ''Caltech'' ''PhD'' ''physics'' [(''tuition_fees'', BStr ''$60,000'')] =
       Inr (False, \<lparr>docs = [stored_program 1 2 0], next_oid = 1\<rparr>)"
proof -
  have h: "distinct (map fst [(''tuition_fees'', BStr ''$60,000'')])"
    by simp
  have s: "save_program 1 2 example_program empty_collection =
       Inr (BObjectId 0, \<lparr>docs = [stored_program 1 2 0], next_oid = 1\<rparr>)"
    by code_simp
  have u: "update_program icontains 9 \<lparr>docs = [stored_program 1 2 0], next_oid = 1\<rparr>
         ''MIT'' ''Master'' ''computer'' [(''tuition_fees'', BStr ''$60,000'')] =
       Inr (True, \<lparr>docs = [stored_program 1 9 0 @ [(''tuition_fees'', BStr ''$60,000'')]],
                    next_oid = 1\<rparr>)"
    by code_simp
  have v: "update_program icontains 9 \<lparr>docs = [stored_program 1 2 0], next_oid = 1\<rparr>
         ''Caltech'' ''PhD'' ''physics'' [(''tuition_fees'', BStr ''$60,000'')] =
       Inr (False, \<lparr>docs = [stored_program 1 2 0], next_oid = 1\<rparr>)"
    by code_simp
  from save_inserts_update_rewrites [OF h, of 1 2 example_program empty_collection "BObjectId 0"
      "\<lparr>docs = [stored_program 1 2 0], next_oid = 1\<rparr>"] h s u v
  show ?thesis by simp
qed

subsection \<open>The composite match score\<close>







end
